theory Spec2Isabelle
  imports Main
begin

section \<open>The FastSAM export script \<open>export_model.py\<close>\<close>

text \<open>
  The script is a module body of thirty lines: it changes the working directory, imports
  the \<open>YOLO\<close> class, checks whether the checkpoint file exists, loads the model (by path
  when the file is there, by name otherwise, which lets the library download it), exports
  the model to ONNX with fixed keyword arguments and prints what the export returned.

  Everything the script does is a call into the operating system or into the
  \<open>ultralytics\<close> library, or a line on standard output. The model therefore threads a
  process state (the working directory and the trace of what happened so far) through the
  body, takes the outside world as a record of functions, and turns every call that can
  raise into a value: the script has no \<open>try\<close>, so the first exception ends the run.
\<close>

subsection \<open>Data\<close>

text \<open>The keyword arguments of \<open>model.export(...)\<close>, lines 23 to 29.\<close>

record export_args =
  format :: string
  imgsz :: int
  opset :: int
  simplify :: bool
  dynamic :: bool

text \<open>
  What a run does that can be seen from outside: calls into the operating system and the
  library (recorded when they are made, before their outcome is known) and lines on
  standard output. \<open>'h\<close> is the type of model handles.
\<close>

datatype 'h event =
    Chdir string
  | ImportYOLO
  | PathExists string
  | Print string
  | LoadCall string
  | ExportCall 'h export_args

text \<open>
  The process state. Each event of the trace is stamped with the working directory that
  was in force when it happened.
\<close>

record 'h proc =
  cwd :: string
  trace :: "(string \<times> 'h event) list"

text \<open>
  The outside world: the operating system and the library. \<open>'e\<close> is the type of
  exceptions, \<open>'h\<close> of model handles, \<open>'r\<close> of export results. A call that can raise
  returns \<open>Some e\<close> or \<open>Inl e\<close> when it raises \<open>e\<close>. The calls that run in the process
  take its working directory as first argument; \<open>os.chdir\<close> is given an absolute
  directory, so its outcome does not depend on it. \<open>type_str\<close> is what the f-string
  makes of \<open>type(model)\<close> and \<open>result_str\<close> what it makes of \<open>result\<close>. Printing is taken
  not to fail, and the library calls are taken to leave the working directory alone.
\<close>

record ('e, 'h, 'r) world =
  os_chdir :: "string \<Rightarrow> 'e option"
  import_ultralytics :: "string \<Rightarrow> 'e option"
  os_path_exists :: "string \<Rightarrow> string \<Rightarrow> bool"
  YOLO :: "string \<Rightarrow> string \<Rightarrow> 'e + 'h"
  model_export :: "string \<Rightarrow> 'h \<Rightarrow> export_args \<Rightarrow> 'e + 'r"
  type_str :: "'h \<Rightarrow> string"
  result_str :: "'r \<Rightarrow> string"

subsection \<open>The constants of the script\<close>

definition models_dir :: string where
  "models_dir = ''/Users/jason/Desktop/Work/StraboMicro2/prototypes/fastsam-onnx-test/models''"

definition model_path :: string where
  "model_path =
     ''/Users/jason/Desktop/Work/StraboMicro2/prototypes/fastsam-onnx-test/models/FastSAM-x.pt''"

definition export_kwargs :: export_args where
  "export_kwargs =
     \<lparr>format = ''onnx'', imgsz = 1024, opset = 17, simplify = False, dynamic = False\<rparr>"

subsection \<open>The body of the script\<close>

definition emit :: "'h event \<Rightarrow> 'h proc \<Rightarrow> 'h proc" where
  "emit ev s = s\<lparr>trace := trace s @ [(cwd s, ev)]\<rparr>"

definition py_print :: "string \<Rightarrow> 'h proc \<Rightarrow> 'h proc" where
  "py_print line s = emit (Print line) s"

text \<open>
  Lines 10 to 17: the existence check and the load, for the checkpoint path \<open>p\<close>
  (the script's \<open>model_path\<close>). The result is what \<open>YOLO(...)\<close> gave: a handle or the
  exception it raised.
\<close>

definition load_model ::
  "('e, 'h, 'r) world \<Rightarrow> string \<Rightarrow> 'h proc \<Rightarrow> ('e + 'h) \<times> 'h proc" where
  "load_model w p s0 =
     (let s1 = emit (PathExists p) s0 in
      if \<not> os_path_exists w (cwd s1) p then
        (let s2 = py_print (''Model not found at '' @ p) s1;
             s3 = py_print ''Downloading FastSAM-x.pt...'' s2;
             s4 = emit (LoadCall ''FastSAM-x.pt'') s3
         in (YOLO w (cwd s4) ''FastSAM-x.pt'', s4))
      else
        (let s2 = py_print (''Loading model from: '' @ p) s1;
             s3 = emit (LoadCall p) s2
         in (YOLO w (cwd s3) p, s3)))"

text \<open>
  Lines 10 to 31, the driver: load, report the handle's type, export, report the result.
  The first component of the result is the exception that ended the run, if any.
\<close>

definition driver ::
  "('e, 'h, 'r) world \<Rightarrow> string \<Rightarrow> 'h proc \<Rightarrow> 'e option \<times> 'h proc" where
  "driver w p s0 =
     (case load_model w p s0 of
        (Inl e, s1) \<Rightarrow> (Some e, s1)
      | (Inr model, s1) \<Rightarrow>
          (let s2 = py_print (''Loaded model: '' @ type_str w model) s1;
               s3 = emit (ExportCall model export_kwargs) s2
           in case model_export w (cwd s3) model export_kwargs of
                Inl e \<Rightarrow> (Some e, s3)
              | Inr result \<Rightarrow>
                  (None, py_print (''Export complete! Result: '' @ result_str w result) s3)))"

text \<open>
  The whole module body: \<open>os.chdir\<close> (line 3), the import (line 5), then the driver on
  the hard-coded \<open>model_path\<close>.
\<close>

definition export_model ::
  "('e, 'h, 'r) world \<Rightarrow> 'h proc \<Rightarrow> 'e option \<times> 'h proc" where
  "export_model w s0 =
     (let s1 = emit (Chdir models_dir) s0 in
      case os_chdir w models_dir of
        Some e \<Rightarrow> (Some e, s1)
      | None \<Rightarrow>
          (let s2 = s1\<lparr>cwd := models_dir\<rparr>;
               s3 = emit ImportYOLO s2
           in case import_ultralytics w (cwd s3) of
                Some e \<Rightarrow> (Some e, s3)
              | None \<Rightarrow> driver w model_path s3))"

text \<open>A process launched in directory \<open>d\<close>, and a run of the script from there.\<close>

definition launch :: "string \<Rightarrow> 'h proc" where
  "launch d = \<lparr>cwd = d, trace = []\<rparr>"

definition run_exit :: "('e, 'h, 'r) world \<Rightarrow> string \<Rightarrow> 'e option" where
  "run_exit w d = fst (export_model w (launch d))"

definition run_trace :: "('e, 'h, 'r) world \<Rightarrow> string \<Rightarrow> (string \<times> 'h event) list" where
  "run_trace w d = trace (snd (export_model w (launch d)))"

definition run_events :: "('e, 'h, 'r) world \<Rightarrow> string \<Rightarrow> 'h event list" where
  "run_events w d = map snd (run_trace w d)"

text \<open>The events a run of the driver adds to the trace, and how it ends.\<close>

definition driver_events :: "('e, 'h, 'r) world \<Rightarrow> string \<Rightarrow> 'h proc \<Rightarrow> 'h event list" where
  "driver_events w p s = map snd (drop (length (trace s)) (trace (snd (driver w p s))))"

definition driver_exit :: "('e, 'h, 'r) world \<Rightarrow> string \<Rightarrow> 'h proc \<Rightarrow> 'e option" where
  "driver_exit w p s = fst (driver w p s)"

subsection \<open>Reading a trace\<close>

fun printed_of :: "'h event \<Rightarrow> string list" where
  "printed_of (Print line) = [line]"
| "printed_of _ = []"

fun load_arg_of :: "'h event \<Rightarrow> string list" where
  "load_arg_of (LoadCall a) = [a]"
| "load_arg_of _ = []"

fun export_call_of :: "'h event \<Rightarrow> ('h \<times> export_args) list" where
  "export_call_of (ExportCall m a) = [(m, a)]"
| "export_call_of _ = []"

text \<open>The lines on standard output, the arguments of the load calls and the export calls,
  each in the order of the trace.\<close>

definition printed :: "'h event list \<Rightarrow> string list" where
  "printed evs = concat (map printed_of evs)"

definition load_args :: "'h event list \<Rightarrow> string list" where
  "load_args evs = concat (map load_arg_of evs)"

definition export_calls :: "'h event list \<Rightarrow> ('h \<times> export_args) list" where
  "export_calls evs = concat (map export_call_of evs)"

text \<open>Whether a line is the report of a finished export (line 31).\<close>

definition is_completion_line :: "string \<Rightarrow> bool" where
  "is_completion_line line = (take 25 line = ''Export complete! Result: '')"

subsection \<open>Sample worlds\<close>

text \<open>
  Concrete worlds on which the theorems below are instantiated: the files in \<open>files\<close>
  exist, the directory change and the import succeed, the load and the export succeed or
  raise as the two flags say. Exceptions and export results are strings, handles are
  numbers.
\<close>

definition sample_world :: "string list \<Rightarrow> bool \<Rightarrow> bool \<Rightarrow> (string, nat, string) world" where
  "sample_world files load_ok export_ok =
     \<lparr>os_chdir = (\<lambda>dir. None),
      import_ultralytics = (\<lambda>c. None),
      os_path_exists = (\<lambda>c p. p \<in> set files),
      YOLO = (\<lambda>c a. if load_ok then Inr 7 else Inl ''load failed''),
      model_export = (\<lambda>c m a. if export_ok then Inr ''FastSAM-x.onnx'' else Inl ''export failed''),
      type_str = (\<lambda>m. ''<class YOLO>''),
      result_str = (\<lambda>r. r)\<rparr>"

text \<open>A world like \<open>sample_world\<close> in which the directory of the script is missing, so
  that \<open>os.chdir\<close> raises.\<close>

definition no_dir_world :: "(string, nat, string) world" where
  "no_dir_world = (sample_world [] True True)\<lparr>os_chdir := (\<lambda>dir. Some ''no such directory'')\<rparr>"

section \<open>Reading a trace, step by step\<close>

lemma printed_simps [simp]:
  "printed [] = []"
  "printed (ev # evs) = printed_of ev @ printed evs"
  "printed (evs @ evs') = printed evs @ printed evs'"
  by (simp_all add: printed_def)

lemma load_args_simps [simp]:
  "load_args [] = []"
  "load_args (ev # evs) = load_arg_of ev @ load_args evs"
  "load_args (evs @ evs') = load_args evs @ load_args evs'"
  by (simp_all add: load_args_def)

lemma export_calls_simps [simp]:
  "export_calls [] = []"
  "export_calls (ev # evs) = export_call_of ev @ export_calls evs"
  "export_calls (evs @ evs') = export_calls evs @ export_calls evs'"
  by (simp_all add: export_calls_def)

section \<open>What the driver does, case by case\<close>

lemma driver_events_present:
  assumes "os_path_exists w (cwd s) p"
  shows "driver_events w p s =
    [PathExists p, Print (''Loading model from: '' @ p), LoadCall p] @
    (case YOLO w (cwd s) p of
       Inl e \<Rightarrow> []
     | Inr model \<Rightarrow>
         [Print (''Loaded model: '' @ type_str w model), ExportCall model export_kwargs] @
         (case model_export w (cwd s) model export_kwargs of
            Inl e \<Rightarrow> []
          | Inr result \<Rightarrow> [Print (''Export complete! Result: '' @ result_str w result)]))"
  using assms
  by (simp add: driver_events_def driver_def load_model_def py_print_def emit_def Let_def
      split: sum.splits)

lemma driver_events_absent:
  assumes "\<not> os_path_exists w (cwd s) p"
  shows "driver_events w p s =
    [PathExists p, Print (''Model not found at '' @ p), Print ''Downloading FastSAM-x.pt...'',
     LoadCall ''FastSAM-x.pt''] @
    (case YOLO w (cwd s) ''FastSAM-x.pt'' of
       Inl e \<Rightarrow> []
     | Inr model \<Rightarrow>
         [Print (''Loaded model: '' @ type_str w model), ExportCall model export_kwargs] @
         (case model_export w (cwd s) model export_kwargs of
            Inl e \<Rightarrow> []
          | Inr result \<Rightarrow> [Print (''Export complete! Result: '' @ result_str w result)]))"
  using assms
  by (simp add: driver_events_def driver_def load_model_def py_print_def emit_def Let_def
      split: sum.splits)

lemma driver_exit_present:
  assumes "os_path_exists w (cwd s) p"
  shows "driver_exit w p s =
    (case YOLO w (cwd s) p of
       Inl e \<Rightarrow> Some e
     | Inr model \<Rightarrow>
         (case model_export w (cwd s) model export_kwargs of
            Inl e \<Rightarrow> Some e
          | Inr result \<Rightarrow> None))"
  using assms
  by (simp add: driver_exit_def driver_def load_model_def py_print_def emit_def Let_def
      split: sum.splits)

lemma driver_exit_absent:
  assumes "\<not> os_path_exists w (cwd s) p"
  shows "driver_exit w p s =
    (case YOLO w (cwd s) ''FastSAM-x.pt'' of
       Inl e \<Rightarrow> Some e
     | Inr model \<Rightarrow>
         (case model_export w (cwd s) model export_kwargs of
            Inl e \<Rightarrow> Some e
          | Inr result \<Rightarrow> None))"
  using assms
  by (simp add: driver_exit_def driver_def load_model_def py_print_def emit_def Let_def
      split: sum.splits)

text \<open>The driver only appends to the trace, stamps its events with the working directory
  it was started in, and looks at nothing else of the state.\<close>

lemma driver_trace:
  "trace (snd (driver w p s)) = trace s @ map (Pair (cwd s)) (driver_events w p s)"
  by (simp add: driver_events_def driver_def load_model_def py_print_def emit_def Let_def
      split: sum.splits)

lemma driver_cwd: "cwd (snd (driver w p s)) = cwd s"
  by (simp add: driver_def load_model_def py_print_def emit_def Let_def split: sum.splits)

lemma driver_events_cwd:
  "cwd s = cwd s' \<Longrightarrow> driver_events w p s = driver_events w p s'"
  by (cases "os_path_exists w (cwd s) p")
    (simp_all add: driver_events_present driver_events_absent cong: sum.case_cong)

lemma driver_exit_cwd:
  "cwd s = cwd s' \<Longrightarrow> driver_exit w p s = driver_exit w p s'"
  by (cases "os_path_exists w (cwd s) p")
    (simp_all add: driver_exit_present driver_exit_absent cong: sum.case_cong)

section \<open>What a run of the script does\<close>

text \<open>A run is the directory change, the import, and the driver started in \<open>models_dir\<close>;
  a failure of either of the first two ends it there.\<close>

lemma run_trace_eq:
  fixes w :: "('e, 'h, 'r) world"
  shows "run_trace w d = (d, Chdir models_dir) #
     (case os_chdir w models_dir of
        Some e \<Rightarrow> []
      | None \<Rightarrow> (models_dir, ImportYOLO) #
          (case import_ultralytics w models_dir of
             Some e \<Rightarrow> []
           | None \<Rightarrow> map (Pair models_dir) (driver_events w model_path (launch models_dir))))"
proof -
  let ?s = "\<lparr>cwd = models_dir, trace = [(d, Chdir models_dir), (models_dir, ImportYOLO)]\<rparr> :: 'h proc"
  have "driver_events w model_path ?s = driver_events w model_path (launch models_dir)"
    by (rule driver_events_cwd) (simp add: launch_def)
  then show ?thesis
    using driver_trace [of w model_path ?s]
    by (simp add: run_trace_def export_model_def launch_def emit_def Let_def split: option.splits)
qed

lemma run_exit_eq:
  fixes w :: "('e, 'h, 'r) world"
  shows "run_exit w d =
     (case os_chdir w models_dir of
        Some e \<Rightarrow> Some e
      | None \<Rightarrow>
          (case import_ultralytics w models_dir of
             Some e \<Rightarrow> Some e
           | None \<Rightarrow> driver_exit w model_path (launch models_dir)))"
proof -
  let ?s = "\<lparr>cwd = models_dir, trace = [(d, Chdir models_dir), (models_dir, ImportYOLO)]\<rparr> :: 'h proc"
  have "driver_exit w model_path ?s = driver_exit w model_path (launch models_dir)"
    by (rule driver_exit_cwd) (simp add: launch_def)
  then show ?thesis
    by (simp add: run_exit_def export_model_def launch_def emit_def Let_def driver_exit_def
        split: option.splits)
qed

lemma run_events_eq:
  "run_events w d = Chdir models_dir #
     (case os_chdir w models_dir of
        Some e \<Rightarrow> []
      | None \<Rightarrow> ImportYOLO #
          (case import_ultralytics w models_dir of
             Some e \<Rightarrow> []
           | None \<Rightarrow> driver_events w model_path (launch models_dir)))"
  by (simp add: run_events_def run_trace_eq comp_def split: option.splits)

section \<open>The export configuration\<close>

lemma export_calls_driver_events:
  "export_calls (driver_events w p s) = [] \<or>
   (\<exists>model. export_calls (driver_events w p s) = [(model, export_kwargs)])"
  by (cases "os_path_exists w (cwd s) p")
    (simp_all add: driver_events_present driver_events_absent split: sum.splits)

text \<open>
  Claim C1. In every run of the script, from any launch directory and in any world
  (whether or not the checkpoint file exists), every call of \<open>model.export\<close> is given
  exactly the keyword arguments \<open>format = 'onnx'\<close>, \<open>imgsz = 1024\<close>, \<open>opset = 17\<close>,
  \<open>simplify = False\<close>, \<open>dynamic = False\<close>.
\<close>

theorem export_args_fixed:
  "\<forall>(model, args) \<in> set (export_calls (run_events w d)).
     args = \<lparr>format = ''onnx'', imgsz = 1024, opset = 17, simplify = False, dynamic = False\<rparr>"
proof -
  have "export_calls (run_events w d) = export_calls (driver_events w model_path (launch models_dir))
      \<or> export_calls (run_events w d) = []"
    by (simp add: run_events_eq split: option.splits)
  then show ?thesis
    using export_calls_driver_events [of w model_path "launch models_dir"]
    by (auto simp: export_kwargs_def)
qed

text \<open>A run in which the checkpoint exists and the load succeeds makes one export call,
  with these arguments.\<close>

theorem export_args_fixed_witness:
  "export_calls (run_events (sample_world [model_path] True True) ''/tmp'') =
     [(7, \<lparr>format = ''onnx'', imgsz = 1024, opset = 17, simplify = False, dynamic = False\<rparr>)]"
proof -
  have "\<exists>args. export_calls (run_events (sample_world [model_path] True True) ''/tmp'') = [(7, args)]"
    by (simp add: run_events_eq driver_events_present sample_world_def launch_def)
  then show ?thesis
    using export_args_fixed [of "sample_world [model_path] True True" "''/tmp''"]
    by auto
qed

section \<open>The branch on the existence check\<close>

text \<open>
  Claim C2. For every checkpoint path \<open>p\<close> that exists, the driver calls the loader exactly
  once, with \<open>p\<close> itself, and does not take the download branch: the line announcing the
  download is not printed.
\<close>

theorem existing_path_loads_by_path:
  assumes "os_path_exists w (cwd s) p"
  shows "load_args (driver_events w p s) = [p] \<and>
         ''Downloading FastSAM-x.pt...'' \<notin> set (printed (driver_events w p s))"
  using assms
  by (simp add: driver_events_present split: sum.splits)

theorem existing_path_loads_by_path_witness:
  "load_args (driver_events (sample_world [''/data/FastSAM-x.pt''] True True)
      ''/data/FastSAM-x.pt'' (launch ''/data'')) = [''/data/FastSAM-x.pt''] \<and>
   ''Downloading FastSAM-x.pt...'' \<notin> set (printed (driver_events
      (sample_world [''/data/FastSAM-x.pt''] True True) ''/data/FastSAM-x.pt'' (launch ''/data'')))"
proof -
  have h: "os_path_exists (sample_world [''/data/FastSAM-x.pt''] True True)
      (cwd (launch ''/data'')) ''/data/FastSAM-x.pt''"
    by (simp add: sample_world_def)
  show ?thesis
    using existing_path_loads_by_path [OF h] by simp
qed

text \<open>
  Claim C3. For every checkpoint path \<open>p\<close> that does not exist, the driver calls the loader
  exactly once, with the model name \<open>FastSAM-x.pt\<close> and not with \<open>p\<close>, on the download
  branch: the line announcing the download is printed.
\<close>

theorem missing_path_loads_by_name:
  assumes "\<not> os_path_exists w (cwd s) p"
  shows "load_args (driver_events w p s) = [''FastSAM-x.pt''] \<and>
         ''Downloading FastSAM-x.pt...'' \<in> set (printed (driver_events w p s))"
  using assms
  by (simp add: driver_events_absent split: sum.splits)

theorem missing_path_loads_by_name_witness:
  "load_args (driver_events (sample_world [] True True)
      ''/data/FastSAM-x.pt'' (launch ''/data'')) = [''FastSAM-x.pt''] \<and>
   ''Downloading FastSAM-x.pt...'' \<in> set (printed (driver_events
      (sample_world [] True True) ''/data/FastSAM-x.pt'' (launch ''/data'')))"
proof -
  have h: "\<not> os_path_exists (sample_world [] True True)
      (cwd (launch ''/data'')) ''/data/FastSAM-x.pt''"
    by (simp add: sample_world_def)
  show ?thesis
    using missing_path_loads_by_name [OF h] by simp
qed

section \<open>The diagnostic lines around the load\<close>

text \<open>
  Claim C4. When the checkpoint path \<open>p\<close> exists, then at the moment the export call is
  made the driver has printed exactly two lines, \<open>Loading model from: p\<close> and then
  \<open>Loaded model: \<close> followed by the type of the handle that is exported, in that order.
  The statement holds wherever the trace of the driver splits at an export call; when the
  load raises, no export call is made and only the first of the two lines is printed.
\<close>

theorem lines_before_export_present:
  assumes "os_path_exists w (cwd s) p"
    and "driver_events w p s = pre @ ExportCall model args # post"
  shows "printed pre = [''Loading model from: '' @ p, ''Loaded model: '' @ type_str w model]"
proof (cases "YOLO w (cwd s) p")
  case (Inl e)
  with assms show ?thesis
    by (auto simp: driver_events_present Cons_eq_append_conv)
next
  case (Inr m)
  with assms show ?thesis
    by (auto simp: driver_events_present Cons_eq_append_conv split: sum.splits)
qed

text \<open>
  In the sample world the trace does split at the export call, after the two lines.
\<close>

theorem lines_before_export_present_witness:
  "os_path_exists (sample_world [''/data/FastSAM-x.pt''] True True)
     (cwd (launch ''/data'')) ''/data/FastSAM-x.pt'' \<and>
   driver_events (sample_world [''/data/FastSAM-x.pt''] True True)
     ''/data/FastSAM-x.pt'' (launch ''/data'') =
     [PathExists ''/data/FastSAM-x.pt'', Print ''Loading model from: /data/FastSAM-x.pt'',
      LoadCall ''/data/FastSAM-x.pt'', Print ''Loaded model: <class YOLO>''] @
     ExportCall 7 export_kwargs # [Print ''Export complete! Result: FastSAM-x.onnx''] \<and>
   printed [PathExists ''/data/FastSAM-x.pt'', Print ''Loading model from: /data/FastSAM-x.pt'',
      LoadCall ''/data/FastSAM-x.pt'', Print ''Loaded model: <class YOLO>''] =
     [''Loading model from: /data/FastSAM-x.pt'', ''Loaded model: <class YOLO>'']"
proof -
  let ?w = "sample_world [''/data/FastSAM-x.pt''] True True"
  have h: "os_path_exists ?w (cwd (launch ''/data'')) ''/data/FastSAM-x.pt''"
    by (simp add: sample_world_def)
  have e: "driver_events ?w ''/data/FastSAM-x.pt'' (launch ''/data'') =
      [PathExists ''/data/FastSAM-x.pt'', Print ''Loading model from: /data/FastSAM-x.pt'',
       LoadCall ''/data/FastSAM-x.pt'', Print ''Loaded model: <class YOLO>''] @
      ExportCall 7 export_kwargs # [Print ''Export complete! Result: FastSAM-x.onnx'']"
    by (simp add: driver_events_present [OF h]) (simp add: sample_world_def)
  have "printed [PathExists ''/data/FastSAM-x.pt'', Print ''Loading model from: /data/FastSAM-x.pt'',
      LoadCall ''/data/FastSAM-x.pt'', Print ''Loaded model: <class YOLO>''] =
     [''Loading model from: /data/FastSAM-x.pt'', ''Loaded model: <class YOLO>'']"
    using lines_before_export_present [OF h e] by (simp add: sample_world_def)
  with h e show ?thesis
    by (intro conjI)
qed

text \<open>
  Claim C5. When the checkpoint path \<open>p\<close> does not exist, the driver prints
  \<open>Model not found at p\<close> and \<open>Downloading FastSAM-x.pt...\<close> and then calls the loader;
  once the load has returned a handle, the next thing it does is print the same
  \<open>Loaded model: \<close> line as on the other branch. When the load raises, nothing follows
  the load call.
\<close>

theorem lines_around_load_absent:
  assumes "\<not> os_path_exists w (cwd s) p"
  shows "\<exists>post. driver_events w p s =
      [PathExists p, Print (''Model not found at '' @ p), Print ''Downloading FastSAM-x.pt...'',
       LoadCall ''FastSAM-x.pt''] @ post \<and>
      (case YOLO w (cwd s) ''FastSAM-x.pt'' of
         Inl e \<Rightarrow> post = []
       | Inr model \<Rightarrow> (\<exists>rest. post = Print (''Loaded model: '' @ type_str w model) # rest))"
  using assms
  by (simp add: driver_events_absent split: sum.splits)

theorem lines_around_load_absent_witness:
  "\<exists>post. driver_events (sample_world [] True True) ''/data/FastSAM-x.pt'' (launch ''/data'') =
      [PathExists ''/data/FastSAM-x.pt'', Print ''Model not found at /data/FastSAM-x.pt'',
       Print ''Downloading FastSAM-x.pt...'', LoadCall ''FastSAM-x.pt''] @ post \<and>
      (\<exists>rest. post = Print ''Loaded model: <class YOLO>'' # rest)"
proof -
  let ?w = "sample_world [] True True"
  have h: "\<not> os_path_exists ?w (cwd (launch ''/data'')) ''/data/FastSAM-x.pt''"
    by (simp add: sample_world_def)
  show ?thesis
    using lines_around_load_absent [OF h] by (simp add: sample_world_def launch_def)
qed

section \<open>After a successful load\<close>

text \<open>
  Claim C6 says that after any successful load exactly one export call occurs and exactly
  one \<open>Export complete! Result: ...\<close> line is printed. The second half fails when the
  export raises: the file exists, the load returns handle 7, one export call is made, and
  the output ends with the \<open>Loaded model\<close> line.
\<close>

theorem completion_line_counterexample:
  "YOLO (sample_world [''/data/FastSAM-x.pt''] True False) ''/data'' ''/data/FastSAM-x.pt'' = Inr 7 \<and>
   export_calls (driver_events (sample_world [''/data/FastSAM-x.pt''] True False)
      ''/data/FastSAM-x.pt'' (launch ''/data'')) = [(7, export_kwargs)] \<and>
   printed (driver_events (sample_world [''/data/FastSAM-x.pt''] True False)
      ''/data/FastSAM-x.pt'' (launch ''/data'')) =
     [''Loading model from: /data/FastSAM-x.pt'', ''Loaded model: <class YOLO>'']"
proof -
  have h: "os_path_exists (sample_world [''/data/FastSAM-x.pt''] True False)
      (cwd (launch ''/data'')) ''/data/FastSAM-x.pt''"
    by (simp add: sample_world_def)
  show ?thesis
    by (simp add: driver_events_present [OF h]) (simp add: sample_world_def launch_def)
qed

text \<open>
  Claim C6, amended. After any successful load, on either branch, the driver makes exactly
  one export call, on the loaded handle and with the fixed arguments; it prints exactly one
  \<open>Export complete! Result: ...\<close> line, carrying the export's result, when that call
  returns, and none when it raises.
\<close>

theorem one_export_after_load:
  assumes "LoadCall a \<in> set (driver_events w p s)"
    and "YOLO w (cwd s) a = Inr model"
  shows "export_calls (driver_events w p s) = [(model, export_kwargs)] \<and>
         filter is_completion_line (printed (driver_events w p s)) =
           (case model_export w (cwd s) model export_kwargs of
              Inl e \<Rightarrow> []
            | Inr result \<Rightarrow> [''Export complete! Result: '' @ result_str w result])"
proof (cases "os_path_exists w (cwd s) p")
  case True
  with assms have "a = p"
    by (auto simp: driver_events_present split: sum.splits)
  with assms True show ?thesis
    by (simp add: driver_events_present is_completion_line_def split: sum.splits)
next
  case False
  with assms have "a = ''FastSAM-x.pt''"
    by (auto simp: driver_events_absent split: sum.splits)
  with assms False show ?thesis
    by (simp add: driver_events_absent is_completion_line_def split: sum.splits)
qed

theorem one_export_after_load_witness:
  "export_calls (driver_events (sample_world [] True True) ''/data/FastSAM-x.pt'' (launch ''/data''))
     = [(7, export_kwargs)] \<and>
   filter is_completion_line (printed (driver_events (sample_world [] True True)
      ''/data/FastSAM-x.pt'' (launch ''/data''))) = [''Export complete! Result: FastSAM-x.onnx'']"
proof -
  let ?w = "sample_world [] True True"
  have h: "\<not> os_path_exists ?w (cwd (launch ''/data'')) ''/data/FastSAM-x.pt''"
    by (simp add: sample_world_def)
  have m: "LoadCall ''FastSAM-x.pt'' \<in> set (driver_events ?w ''/data/FastSAM-x.pt'' (launch ''/data''))"
    by (simp add: driver_events_absent [OF h])
  have y: "YOLO ?w (cwd (launch ''/data'')) ''FastSAM-x.pt'' = Inr 7"
    by (simp add: sample_world_def)
  show ?thesis
    using one_export_after_load [OF m y] by (simp add: sample_world_def launch_def)
qed

section \<open>The lines of a whole run\<close>

text \<open>
  Claim C7 says that every run prints exactly four lines, on either branch. A run that
  finds the checkpoint and completes prints three: on that branch one line
  (\<open>Loading model from: ...\<close>) stands where the other branch has two. A run that cannot
  change into the directory of the script prints none.
\<close>

theorem four_lines_counterexample:
  "run_exit (sample_world [model_path] True True) ''/tmp'' = None \<and>
   printed (run_events (sample_world [model_path] True True) ''/tmp'') =
     [''Loading model from: '' @ model_path, ''Loaded model: <class YOLO>'',
      ''Export complete! Result: FastSAM-x.onnx''] \<and>
   length (printed (run_events (sample_world [model_path] True True) ''/tmp'')) = 3 \<and>
   run_exit no_dir_world ''/tmp'' = Some ''no such directory'' \<and>
   printed (run_events no_dir_world ''/tmp'') = []"
proof -
  have a: "run_exit (sample_world [model_path] True True) ''/tmp'' = None"
    by (simp add: run_exit_eq sample_world_def launch_def driver_exit_present)
  have b: "printed (run_events (sample_world [model_path] True True) ''/tmp'') =
     [''Loading model from: '' @ model_path, ''Loaded model: <class YOLO>'',
      ''Export complete! Result: FastSAM-x.onnx'']"
    by (simp add: run_events_eq sample_world_def launch_def driver_events_present)
  have c: "run_exit no_dir_world ''/tmp'' = Some ''no such directory''"
    by (simp add: run_exit_eq no_dir_world_def sample_world_def)
  have d: "printed (run_events no_dir_world ''/tmp'') = []"
    by (simp add: run_events_eq no_dir_world_def sample_world_def)
  show ?thesis
    using a b c d by simp
qed

text \<open>
  Claim C7, amended. A run of the script that completes prints exactly four lines when the
  checkpoint is missing (path status, download intent, loaded-model confirmation, export
  completion) and exactly three when it exists (load intent, loaded-model confirmation,
  export completion).
\<close>

theorem lines_of_completed_run:
  assumes "run_exit w d = None"
  shows "(\<exists>model result. printed (run_events w d) =
            (if os_path_exists w models_dir model_path
             then [''Loading model from: '' @ model_path]
             else [''Model not found at '' @ model_path, ''Downloading FastSAM-x.pt...'']) @
            [''Loaded model: '' @ type_str w model,
             ''Export complete! Result: '' @ result_str w result]) \<and>
         length (printed (run_events w d)) =
           (if os_path_exists w models_dir model_path then 3 else 4)"
proof (cases "os_path_exists w models_dir model_path")
  case True
  then have h: "os_path_exists w (cwd (launch models_dir)) model_path"
    by (simp add: launch_def)
  show ?thesis
    using assms True
    by (auto simp: run_exit_eq run_events_eq driver_exit_present [OF h]
        driver_events_present [OF h] split: option.splits sum.splits)
next
  case False
  then have h: "\<not> os_path_exists w (cwd (launch models_dir)) model_path"
    by (simp add: launch_def)
  show ?thesis
    using assms False
    by (auto simp: run_exit_eq run_events_eq driver_exit_absent [OF h]
        driver_events_absent [OF h] split: option.splits sum.splits)
qed

theorem lines_of_completed_run_witness:
  "length (printed (run_events (sample_world [] True True) ''/tmp'')) = 4 \<and>
   length (printed (run_events (sample_world [model_path] True True) ''/tmp'')) = 3"
proof -
  have a: "run_exit (sample_world [] True True) ''/tmp'' = None"
    by (simp add: run_exit_eq sample_world_def launch_def driver_exit_absent)
  have b: "run_exit (sample_world [model_path] True True) ''/tmp'' = None"
    by (simp add: run_exit_eq sample_world_def launch_def driver_exit_present)
  show ?thesis
    using lines_of_completed_run [OF a] lines_of_completed_run [OF b]
    by (simp add: sample_world_def)
qed

section \<open>Failures of the library\<close>

text \<open>
  Claim C8. The script catches nothing. When a load call of the run raises \<open>e\<close>, the run
  ends with \<open>e\<close> itself, the load call is the last thing it did (no further line is
  printed) and no export call is made. When an export call of the run raises \<open>e\<close>, the
  run ends with \<open>e\<close> itself and the export call is the last thing it did.
\<close>

theorem failures_propagate:
  "(LoadCall a \<in> set (run_events w d) \<and> YOLO w models_dir a = Inl e \<longrightarrow>
      run_exit w d = Some e \<and>
      (\<exists>pre. run_events w d = pre @ [LoadCall a]) \<and>
      export_calls (run_events w d) = []) \<and>
   (ExportCall model args \<in> set (run_events w d) \<and>
    model_export w models_dir model args = Inl e \<longrightarrow>
      run_exit w d = Some e \<and>
      (\<exists>pre. run_events w d = pre @ [ExportCall model args]))"
proof (cases "os_path_exists w models_dir model_path")
  case True
  then have h: "os_path_exists w (cwd (launch models_dir)) model_path"
    by (simp add: launch_def)
  have c: "cwd (launch models_dir) = models_dir"
    by (simp add: launch_def)
  show ?thesis
    by (auto simp: run_exit_eq run_events_eq driver_exit_present [OF h]
        driver_events_present [OF h] c split: option.splits sum.splits)
next
  case False
  then have h: "\<not> os_path_exists w (cwd (launch models_dir)) model_path"
    by (simp add: launch_def)
  have c: "cwd (launch models_dir) = models_dir"
    by (simp add: launch_def)
  show ?thesis
    by (auto simp: run_exit_eq run_events_eq driver_exit_absent [OF h]
        driver_events_absent [OF h] c split: option.splits sum.splits)
qed

theorem failures_propagate_witness:
  "run_exit (sample_world [] False True) ''/tmp'' = Some ''load failed'' \<and>
   (\<exists>pre. run_events (sample_world [] False True) ''/tmp'' = pre @ [LoadCall ''FastSAM-x.pt'']) \<and>
   export_calls (run_events (sample_world [] False True) ''/tmp'') = [] \<and>
   run_exit (sample_world [model_path] True False) ''/tmp'' = Some ''export failed'' \<and>
   (\<exists>pre. run_events (sample_world [model_path] True False) ''/tmp'' =
      pre @ [ExportCall 7 export_kwargs])"
proof -
  have l: "LoadCall ''FastSAM-x.pt'' \<in> set (run_events (sample_world [] False True) ''/tmp'')"
    by (simp add: run_events_eq sample_world_def launch_def driver_events_absent)
  have lf: "YOLO (sample_world [] False True) models_dir ''FastSAM-x.pt'' = Inl ''load failed''"
    by (simp add: sample_world_def)
  have x: "ExportCall 7 export_kwargs \<in> set (run_events (sample_world [model_path] True False) ''/tmp'')"
    by (simp add: run_events_eq sample_world_def launch_def driver_events_present)
  have xf: "model_export (sample_world [model_path] True False) models_dir 7 export_kwargs =
      Inl ''export failed''"
    by (simp add: sample_world_def)
  show ?thesis
    using failures_propagate [of "''FastSAM-x.pt''" "sample_world [] False True" "''/tmp''"
        "''load failed''" 7 export_kwargs]
      failures_propagate [of "''x''" "sample_world [model_path] True False" "''/tmp''"
        "''export failed''" 7 export_kwargs] l lf x xf
    by blast
qed

section \<open>Running the driver twice\<close>

text \<open>
  Claim C9. Two runs of the driver on the same checkpoint path \<open>p\<close>, in worlds \<open>w1\<close> and
  \<open>w2\<close> and from states \<open>s1\<close> and \<open>s2\<close> that may differ in everything but the existence of
  \<open>p\<close>, both load by path. Nothing of the first run reaches the second: when the library
  answers the second run as it answered the first, both runs do and print the same and
  end the same way, whatever else changed on the file system and whatever trace the
  second run starts from.
\<close>

theorem rerun_same_branch:
  assumes "os_path_exists w1 (cwd s1) p" and "os_path_exists w2 (cwd s2) p"
  shows "load_args (driver_events w1 p s1) = [p] \<and>
         load_args (driver_events w2 p s2) = [p] \<and>
         (cwd s1 = cwd s2 \<and> YOLO w1 = YOLO w2 \<and> model_export w1 = model_export w2 \<and>
          type_str w1 = type_str w2 \<and> result_str w1 = result_str w2 \<longrightarrow>
            driver_events w1 p s1 = driver_events w2 p s2 \<and>
            driver_exit w1 p s1 = driver_exit w2 p s2)"
proof (intro conjI impI)
  show "load_args (driver_events w1 p s1) = [p]"
    using assms(1) by (simp add: driver_events_present split: sum.splits)
  show "load_args (driver_events w2 p s2) = [p]"
    using assms(2) by (simp add: driver_events_present split: sum.splits)
next
  assume same: "cwd s1 = cwd s2 \<and> YOLO w1 = YOLO w2 \<and> model_export w1 = model_export w2 \<and>
      type_str w1 = type_str w2 \<and> result_str w1 = result_str w2"
  then have eqs: "YOLO w1 (cwd s1) p = YOLO w2 (cwd s2) p"
    "\<And>m. model_export w1 (cwd s1) m export_kwargs = model_export w2 (cwd s2) m export_kwargs"
    "\<And>m. type_str w1 m = type_str w2 m" "\<And>r. result_str w1 r = result_str w2 r"
    by simp_all
  show "driver_events w1 p s1 = driver_events w2 p s2"
    by (simp only: driver_events_present [OF assms(1)] driver_events_present [OF assms(2)] eqs
        cong: sum.case_cong)
  show "driver_exit w1 p s1 = driver_exit w2 p s2"
    by (simp only: driver_exit_present [OF assms(1)] driver_exit_present [OF assms(2)] eqs
        cong: sum.case_cong)
qed

text \<open>
  The second run below starts in the state the first run left, in a world in which the
  exported file has appeared.
\<close>

theorem rerun_same_branch_witness:
  "load_args (driver_events (sample_world [''/data/FastSAM-x.pt''] True True)
      ''/data/FastSAM-x.pt'' (launch ''/data'')) = [''/data/FastSAM-x.pt''] \<and>
   load_args (driver_events (sample_world [''/data/FastSAM-x.pt'', ''/data/FastSAM-x.onnx''] True True)
      ''/data/FastSAM-x.pt''
      (snd (driver (sample_world [''/data/FastSAM-x.pt''] True True)
         ''/data/FastSAM-x.pt'' (launch ''/data'')))) = [''/data/FastSAM-x.pt''] \<and>
   driver_events (sample_world [''/data/FastSAM-x.pt''] True True)
      ''/data/FastSAM-x.pt'' (launch ''/data'') =
   driver_events (sample_world [''/data/FastSAM-x.pt'', ''/data/FastSAM-x.onnx''] True True)
      ''/data/FastSAM-x.pt''
      (snd (driver (sample_world [''/data/FastSAM-x.pt''] True True)
         ''/data/FastSAM-x.pt'' (launch ''/data'')))"
proof -
  let ?w1 = "sample_world [''/data/FastSAM-x.pt''] True True"
  let ?w2 = "sample_world [''/data/FastSAM-x.pt'', ''/data/FastSAM-x.onnx''] True True"
  let ?s1 = "launch ''/data'' :: nat proc"
  let ?s2 = "snd (driver ?w1 ''/data/FastSAM-x.pt'' ?s1)"
  have h1: "os_path_exists ?w1 (cwd ?s1) ''/data/FastSAM-x.pt''"
    by (simp add: sample_world_def)
  have h2: "os_path_exists ?w2 (cwd ?s2) ''/data/FastSAM-x.pt''"
    by (simp add: sample_world_def)
  have same: "cwd ?s1 = cwd ?s2 \<and> YOLO ?w1 = YOLO ?w2 \<and> model_export ?w1 = model_export ?w2 \<and>
      type_str ?w1 = type_str ?w2 \<and> result_str ?w1 = result_str ?w2"
    by (simp add: driver_cwd sample_world_def)
  show ?thesis
    using rerun_same_branch [OF h1 h2] same by blast
qed

section \<open>The working directory\<close>

text \<open>
  Claim C10. The first thing a run does is \<open>os.chdir\<close> to the fixed absolute directory
  \<open>models_dir\<close>, in the directory \<open>d\<close> it was launched from. Everything after it (the
  import, the existence check, the load, the export and the prints) happens with
  \<open>models_dir\<close> as working directory, so that what the library writes under a relative
  name lands there; and nothing after the directory change depends on \<open>d\<close>: two runs
  launched from different directories do the same and end the same way.
\<close>

theorem chdir_comes_first:
  "(\<exists>rest. run_trace w d = (d, Chdir models_dir) # rest \<and>
      (\<forall>(c, ev) \<in> set rest. c = models_dir)) \<and>
   tl (run_trace w d) = tl (run_trace w d') \<and>
   run_exit w d = run_exit w d'"
proof -
  have "\<forall>(c, ev) \<in> set (map (Pair models_dir) evs). c = models_dir" for evs :: "'h event list"
    by auto
  then show ?thesis
    by (auto simp: run_trace_eq run_exit_eq split: option.splits)
qed

theorem chdir_comes_first_witness:
  "run_trace (sample_world [] True True) ''/tmp'' ! 0 = (''/tmp'', Chdir models_dir) \<and>
   (models_dir, LoadCall ''FastSAM-x.pt'') \<in> set (tl (run_trace (sample_world [] True True) ''/tmp'')) \<and>
   (models_dir, ExportCall 7 export_kwargs) \<in> set (tl (run_trace (sample_world [] True True) ''/tmp'')) \<and>
   tl (run_trace (sample_world [] True True) ''/tmp'') =
     tl (run_trace (sample_world [] True True) ''/home/jason'')"
proof -
  have m: "(models_dir, LoadCall ''FastSAM-x.pt'') \<in> set (tl (run_trace (sample_world [] True True) ''/tmp''))
    \<and> (models_dir, ExportCall 7 export_kwargs) \<in> set (tl (run_trace (sample_world [] True True) ''/tmp''))"
    by (simp add: run_trace_eq sample_world_def launch_def driver_events_absent)
  show ?thesis
    using chdir_comes_first [of "sample_world [] True True" "''/tmp''" "''/home/jason''"] m
    by auto
qed

end
